theory Spec2Isabelle
  imports Main
begin

section \<open>Go strings and the standard-library helpers the serializer calls\<close>

text \<open>
  A Go \<^verbatim>\<open>string\<close> is a sequence of bytes; it is modelled as a \<^typ>\<open>string\<close>
  (a list of 8-bit characters).  \<^verbatim>\<open>bytes.Buffer\<close> is only ever appended to with
  \<^verbatim>\<open>WriteString\<close>, so a buffer is the string written so far and
  \<^verbatim>\<open>buf.WriteString(s)\<close> is \<open>buf @ s\<close>.
\<close>

definition quote :: string where
  \<open>quote = [CHR 0x22]\<close>

definition apostrophe :: string where
  \<open>apostrophe = [CHR 0x27]\<close>

definition newline :: string where
  \<open>newline = [CHR 0x0A]\<close>

text \<open>\<^verbatim>\<open>strings.Repeat(s, count)\<close> for a non-negative count.  The serializer's
  \<^verbatim>\<open>depth\<close> starts at 0 and only grows by one per nesting level, so it is a
  natural number.\<close>

definition Repeat :: "string \<Rightarrow> nat \<Rightarrow> string" where
  "Repeat s count = concat (replicate count s)"

text \<open>\<^verbatim>\<open>strings.HasPrefix(s, prefix)\<close>.\<close>

definition HasPrefix :: "string \<Rightarrow> string \<Rightarrow> bool" where
  "HasPrefix s p = (length p \<le> length s \<and> take (length p) s = p)"

text \<open>\<^verbatim>\<open>strings.Contains(s, substr)\<close>: some position of \<open>s\<close> starts with
  \<open>substr\<close>.\<close>

fun Contains :: "string \<Rightarrow> string \<Rightarrow> bool" where
  "Contains [] substr = (substr = [])"
| "Contains (c # s) substr = (HasPrefix (c # s) substr \<or> Contains s substr)"

text \<open>\<^verbatim>\<open>strings.ReplaceAll(s, old, new)\<close>: the non-overlapping occurrences of
  \<open>old\<close> are replaced from the left.  The serializer calls it with a one-byte \<open>old\<close>;
  for an empty \<open>old\<close> Go inserts \<open>new\<close> at every rune boundary, written here at every
  byte boundary.\<close>

function ReplaceAll :: "string \<Rightarrow> string \<Rightarrow> string \<Rightarrow> string" where
  "ReplaceAll s old new =
     (if old = [] then new @ concat (map (\<lambda>c. c # new) s)
      else if s = [] then []
      else if HasPrefix s old then new @ ReplaceAll (drop (length old) s) old new
      else hd s # ReplaceAll (tl s) old new)"
  by pat_completeness auto
termination
  by (relation "measure (\<lambda>(s, old, new). length s)") auto

declare ReplaceAll.simps [simp del]

text \<open>
  \<^verbatim>\<open>strings.TrimSpace\<close> removes the leading and the trailing white-space runes
  (\<^verbatim>\<open>unicode.IsSpace\<close>).  On the UTF-8 bytes these runes are the six ASCII characters
  tab, line feed, vertical tab, form feed, carriage return and space, and the encodings of
  U+0085, U+00A0, U+1680, U+2000 to U+200A, U+2028, U+2029, U+202F, U+205F and U+3000.
\<close>

definition asciiSpace :: "char list" where
  "asciiSpace = [CHR 0x09, CHR 0x0A, CHR 0x0B, CHR 0x0C, CHR 0x0D, CHR 0x20]"

definition spaceRunes :: "string list" where
  "spaceRunes =
     map (\<lambda>c. [c]) asciiSpace @
     [[CHR 0xC2, CHR 0x85], [CHR 0xC2, CHR 0xA0], [CHR 0xE1, CHR 0x9A, CHR 0x80]] @
     map (\<lambda>c. [CHR 0xE2, CHR 0x80, c])
       [CHR 0x80, CHR 0x81, CHR 0x82, CHR 0x83, CHR 0x84, CHR 0x85, CHR 0x86, CHR 0x87,
        CHR 0x88, CHR 0x89, CHR 0x8A, CHR 0xA8, CHR 0xA9, CHR 0xAF] @
     [[CHR 0xE2, CHR 0x81, CHR 0x9F], [CHR 0xE3, CHR 0x80, CHR 0x80]]"

text \<open>\<open>trimLeftRunes runes s\<close> drops leading runes of \<open>s\<close> as long as one of the given
  encodings starts it; trimming on the right is trimming the reversed string by the
  reversed encodings.\<close>

function trimLeftRunes :: "string list \<Rightarrow> string \<Rightarrow> string" where
  "trimLeftRunes runes s =
     (case find (\<lambda>r. r \<noteq> [] \<and> HasPrefix s r) runes of
        None \<Rightarrow> s
      | Some r \<Rightarrow> trimLeftRunes runes (drop (length r) s))"
  by pat_completeness auto
termination
proof (relation "measure (\<lambda>(runes, s). length s)")
  show "wf (measure (\<lambda>(runes, s). length s))" by simp
next
  fix runes :: "string list" and s r :: string
  assume "find (\<lambda>r. r \<noteq> [] \<and> HasPrefix s r) runes = Some r"
  then have "r \<noteq> []" and "HasPrefix s r"
    by (auto simp: find_Some_iff)
  then have "length (drop (length r) s) < length s"
    by (cases r; cases s) (auto simp: HasPrefix_def)
  then show "((runes, drop (length r) s), (runes, s)) \<in> measure (\<lambda>(runes, s). length s)"
    by simp
qed

declare trimLeftRunes.simps [simp del]

definition TrimSpace :: "string \<Rightarrow> string" where
  "TrimSpace s = rev (trimLeftRunes (map rev spaceRunes) (rev (trimLeftRunes spaceRunes s)))"

section \<open>The DOM values the serializer reads\<close>

text \<open>
  The serializer reads a DOM tree only through \<^verbatim>\<open>NodeType\<close>, the type assertions,
  \<^verbatim>\<open>TagName\<close>, \<^verbatim>\<open>Attributes\<close> (a \<^verbatim>\<open>NamedNodeMap\<close> walked by index),
  \<^verbatim>\<open>HasChildNodes\<close>, the \<^verbatim>\<open>FirstChild\<close>/\<^verbatim>\<open>NextSibling\<close> chain,
  \<^verbatim>\<open>Name\<close>, \<^verbatim>\<open>Value\<close>, \<^verbatim>\<open>Data\<close>, \<^verbatim>\<open>Target\<close> and
  \<^verbatim>\<open>DocumentElement\<close>.  A node is therefore a tagged value carrying exactly these
  observations: the child chain and the attribute map are lists, a nil
  \<^verbatim>\<open>DocumentElement\<close> is \<open>None\<close>.  The constructor of a node stands for both its
  \<^verbatim>\<open>NodeType\<close> and its dynamic Go type.
\<close>

datatype element = Element (TagName: string) (Attributes: "node list") (ChildNodes: "node list")
  and node =
      ElementNode element
    | AttrNode (Name: string) (Value: string)
    | TextNode string
    | CDATASectionNode string
    | CommentNode string
    | ProcessingInstructionNode string string
    | DocumentNode document
    | DocumentTypeNode string
    | DocumentFragmentNode "node list"
  and document = Document (DocumentElement: "element option")

text \<open>Go's \<^verbatim>\<open>error\<close>: a non-nil error is \<open>Inl\<close>, a nil error with the bytes
  written is \<open>Inr\<close>.\<close>

datatype error = Error string

section \<open>marshal.go\<close>

text \<open>
  \<^verbatim>\<open>EscapeString\<close> is defined in another file of the package; the serializer takes it
  as its first parameter.  The \<^verbatim>\<open>for\<close> loop over the child chain, with its early
  return of a non-nil error, is \<open>serializeChildNodes\<close>.  The older pair
  \<^verbatim>\<open>serializeElement\<close>/\<^verbatim>\<open>serializeNode\<close> is not reached from any entry point
  (\<^verbatim>\<open>marshalNode\<close> calls \<^verbatim>\<open>marshalNodeWithOptions\<close>); it is left out.
\<close>

definition xmlDeclaration :: string where
  \<open>xmlDeclaration = ''<?xml version="1.0"?>''\<close>

text \<open>The body of the attribute loop of \<^verbatim>\<open>serializeElementWithOptions\<close> for the
  item \<open>attr\<close>: an item that is not an \<^verbatim>\<open>Attr\<close> writes nothing (nor does a nil
  item or a nil map, which the lists do not contain).  The loop itself, over the indices
  of the map, is the \<open>foldl\<close> of this body over the list.\<close>

definition writeAttribute :: "(string \<Rightarrow> string) \<Rightarrow> bool \<Rightarrow> string \<Rightarrow> node \<Rightarrow> string" where
  "writeAttribute EscapeString preserveWhitespace buf attr =
     (case attr of
        AttrNode name attrValue \<Rightarrow>
          (let buf = buf @ '' '' @ name;
               useSingleQuote = Contains attrValue quote
           in if useSingleQuote then
                buf @ ''='' @ apostrophe
                  @ (if \<not> preserveWhitespace
                     then ReplaceAll (EscapeString attrValue) quote quote
                     else attrValue)
                  @ apostrophe
              else
                buf @ ''='' @ quote
                  @ (if \<not> preserveWhitespace then EscapeString attrValue else attrValue)
                  @ quote)
      | _ \<Rightarrow> buf)"

function serializeElementWithOptions ::
      "(string \<Rightarrow> string) \<Rightarrow> string \<Rightarrow> element \<Rightarrow> bool \<Rightarrow> string \<Rightarrow> string \<Rightarrow> nat \<Rightarrow> bool
        \<Rightarrow> error + string"
  and serializeNodeWithOptions ::
      "(string \<Rightarrow> string) \<Rightarrow> string \<Rightarrow> node \<Rightarrow> string \<Rightarrow> string \<Rightarrow> nat \<Rightarrow> bool
        \<Rightarrow> error + string"
  and serializeChildNodes ::
      "(string \<Rightarrow> string) \<Rightarrow> string \<Rightarrow> node list \<Rightarrow> string \<Rightarrow> string \<Rightarrow> nat \<Rightarrow> bool
        \<Rightarrow> error + string"
where
  "serializeElementWithOptions EscapeString buf elem
       skipRoot prefix indent depth preserveWhitespace =
     (let buf = (if indent \<noteq> [] \<and> \<not> skipRoot then buf @ Repeat indent depth else buf);
          hasChildren = (ChildNodes elem \<noteq> [])
      in if \<not> skipRoot \<and> \<not> hasChildren then
           Inr (foldl (writeAttribute EscapeString preserveWhitespace)
                  (buf @ ''<'' @ TagName elem) (Attributes elem)
                @ ''></'' @ TagName elem @ ''>''
                @ (if indent \<noteq> [] then newline else []))
         else
           (let buf = (if \<not> skipRoot then
                         foldl (writeAttribute EscapeString preserveWhitespace)
                           (buf @ ''<'' @ TagName elem) (Attributes elem)
                         @ ''>''
                         @ (if indent \<noteq> [] \<and> hasChildren then newline else [])
                       else buf)
            in case serializeChildNodes EscapeString buf (ChildNodes elem) prefix indent
                      (depth + 1) preserveWhitespace of
                 Inl err \<Rightarrow> Inl err
               | Inr buf \<Rightarrow>
                   Inr (if \<not> skipRoot then
                          buf @ (if indent \<noteq> [] then Repeat indent depth else [])
                            @ ''</'' @ TagName elem @ ''>''
                            @ (if indent \<noteq> [] then newline else [])
                        else buf)))"
| "serializeNodeWithOptions EscapeString buf node prefix indent depth preserveWhitespace =
     (case node of
        ElementNode elem \<Rightarrow>
          serializeElementWithOptions EscapeString buf elem False prefix indent depth
            preserveWhitespace
      | TextNode textData \<Rightarrow>
          (if indent \<noteq> [] \<and> TrimSpace textData = [] then Inr buf
           else Inr (buf @ (if indent \<noteq> [] then Repeat indent depth else [])
                       @ (if preserveWhitespace then textData else EscapeString textData)
                       @ (if indent \<noteq> [] then newline else [])))
      | CommentNode data \<Rightarrow>
          Inr (buf @ (if indent \<noteq> [] then Repeat indent depth else [])
                 @ ''<!--''
                 @ (if preserveWhitespace then data else EscapeString data)
                 @ ''-->''
                 @ (if indent \<noteq> [] then newline else []))
      | CDATASectionNode data \<Rightarrow>
          Inr (buf @ (if indent \<noteq> [] then Repeat indent depth else [])
                 @ ''<![CDATA['' @ data @ '']]>''
                 @ (if indent \<noteq> [] then newline else []))
      | ProcessingInstructionNode target data \<Rightarrow>
          Inr (buf @ (if indent \<noteq> [] then Repeat indent depth else [])
                 @ ''<?'' @ target
                 @ (if data \<noteq> [] then '' '' @ data else [])
                 @ ''?>''
                 @ (if indent \<noteq> [] then newline else []))
      | _ \<Rightarrow> Inr buf)"
| "serializeChildNodes EscapeString buf children prefix indent depth preserveWhitespace =
     (case children of
        [] \<Rightarrow> Inr buf
      | child # siblings \<Rightarrow>
          (case serializeNodeWithOptions EscapeString buf child prefix indent depth
                  preserveWhitespace of
             Inl err \<Rightarrow> Inl err
           | Inr buf \<Rightarrow>
               serializeChildNodes EscapeString buf siblings prefix indent depth
                 preserveWhitespace))"
  by pat_completeness auto
termination
  apply (relation "measure (\<lambda>x. case x of
           Inl (_, _, elem, _) \<Rightarrow> 2 * size elem + 1
         | Inr (Inl (_, _, node, _)) \<Rightarrow> 2 * size node
         | Inr (Inr (_, _, children, _)) \<Rightarrow> 2 * size_list size children + 1)")
  apply simp
  subgoal for EscapeString buf elem by (cases elem) simp
  apply simp
  apply simp
  apply simp
  done

declare serializeElementWithOptions.simps [simp del]
declare serializeNodeWithOptions.simps [simp del]
declare serializeChildNodes.simps [simp del]

definition marshalDOMWithOptions ::
    "(string \<Rightarrow> string) \<Rightarrow> document \<Rightarrow> string \<Rightarrow> string \<Rightarrow> bool \<Rightarrow> error + string" where
  "marshalDOMWithOptions EscapeString doc prefix indent preserveWhitespace =
     (let buf = xmlDeclaration;
          buf = (if indent \<noteq> [] then buf @ newline else buf)
      in case DocumentElement doc of
           None \<Rightarrow> Inr buf
         | Some root \<Rightarrow>
             (case serializeElementWithOptions EscapeString buf root False prefix indent 0
                     preserveWhitespace of
                Inl err \<Rightarrow> Inl err
              | Inr buf \<Rightarrow> Inr buf))"

definition marshalDOM ::
    "(string \<Rightarrow> string) \<Rightarrow> document \<Rightarrow> string \<Rightarrow> string \<Rightarrow> bool \<Rightarrow> error + string" where
  "marshalDOM EscapeString doc prefix indent preserveWhitespace =
     marshalDOMWithOptions EscapeString doc prefix indent preserveWhitespace"

definition marshalElementWithOptions ::
    "(string \<Rightarrow> string) \<Rightarrow> element \<Rightarrow> string \<Rightarrow> string \<Rightarrow> bool \<Rightarrow> error + string" where
  "marshalElementWithOptions EscapeString elem prefix indent preserveWhitespace =
     (case serializeElementWithOptions EscapeString [] elem False prefix indent 0
             preserveWhitespace of
        Inl err \<Rightarrow> Inl err
      | Inr buf \<Rightarrow> Inr buf)"

definition marshalElement ::
    "(string \<Rightarrow> string) \<Rightarrow> element \<Rightarrow> string \<Rightarrow> string \<Rightarrow> bool \<Rightarrow> error + string" where
  "marshalElement EscapeString elem prefix indent preserveWhitespace =
     marshalElementWithOptions EscapeString elem prefix indent preserveWhitespace"

definition marshalNodeWithOptions ::
    "(string \<Rightarrow> string) \<Rightarrow> node \<Rightarrow> string \<Rightarrow> string \<Rightarrow> bool \<Rightarrow> error + string" where
  "marshalNodeWithOptions EscapeString node prefix indent preserveWhitespace =
     (case serializeNodeWithOptions EscapeString [] node prefix indent 0
             preserveWhitespace of
        Inl err \<Rightarrow> Inl err
      | Inr buf \<Rightarrow> Inr buf)"

text \<open>\<^verbatim>\<open>marshalNode\<close> does not pass its \<^verbatim>\<open>preserveWhitespace\<close> argument on: it
  calls \<^verbatim>\<open>marshalNodeWithOptions\<close> with \<^verbatim>\<open>false\<close>.\<close>

definition marshalNode ::
    "(string \<Rightarrow> string) \<Rightarrow> node \<Rightarrow> string \<Rightarrow> string \<Rightarrow> bool \<Rightarrow> error + string" where
  "marshalNode EscapeString node prefix indent preserveWhitespace =
     marshalNodeWithOptions EscapeString node prefix indent False"

text \<open>
  The entry points take an \<^verbatim>\<open>interface{}\<close> and try the type assertions
  \<^verbatim>\<open>Document\<close>, \<^verbatim>\<open>Element\<close>, \<^verbatim>\<open>Node\<close> in this order.  They are modelled
  on DOM values, where the dynamic type is the constructor of the node; the last branch
  (a value that is no DOM node goes to \<^verbatim>\<open>encoding/xml\<close>) is outside this type.
\<close>

definition Marshal :: "(string \<Rightarrow> string) \<Rightarrow> node \<Rightarrow> error + string" where
  "Marshal EscapeString v =
     (case v of
        DocumentNode doc \<Rightarrow> marshalDOM EscapeString doc [] [] True
      | ElementNode elem \<Rightarrow> marshalElement EscapeString elem [] [] True
      | node \<Rightarrow> marshalNode EscapeString node [] [] True)"

definition MarshalIndentWithOptions ::
    "(string \<Rightarrow> string) \<Rightarrow> node \<Rightarrow> string \<Rightarrow> string \<Rightarrow> bool \<Rightarrow> error + string" where
  "MarshalIndentWithOptions EscapeString v prefix indent preserveWhitespace =
     (case v of
        DocumentNode doc \<Rightarrow>
          marshalDOMWithOptions EscapeString doc prefix indent preserveWhitespace
      | ElementNode elem \<Rightarrow>
          marshalElementWithOptions EscapeString elem prefix indent preserveWhitespace
      | node \<Rightarrow> marshalNodeWithOptions EscapeString node prefix indent preserveWhitespace)"

definition MarshalIndent ::
    "(string \<Rightarrow> string) \<Rightarrow> node \<Rightarrow> string \<Rightarrow> string \<Rightarrow> bool \<Rightarrow> error + string" where
  "MarshalIndent EscapeString v prefix indent preserveWhitespace =
     MarshalIndentWithOptions EscapeString v prefix indent preserveWhitespace"

section \<open>Auxiliary notions for stating the properties\<close>

text \<open>What the attribute loop writes for an attribute map, starting from an empty buffer.\<close>

definition attributesXML :: "(string \<Rightarrow> string) \<Rightarrow> bool \<Rightarrow> node list \<Rightarrow> string" where
  "attributesXML EscapeString preserveWhitespace attrs =
     foldl (writeAttribute EscapeString preserveWhitespace) [] attrs"

text \<open>The two guarded writes \<^verbatim>\<open>if indent != "" { ... }\<close> that surround every node.\<close>

definition indentation :: "string \<Rightarrow> nat \<Rightarrow> string" where
  "indentation indent depth = (if indent \<noteq> [] then Repeat indent depth else [])"

definition lineEnd :: "string \<Rightarrow> string" where
  "lineEnd indent = (if indent \<noteq> [] then newline else [])"

text \<open>The document of the end-to-end scenario: root \<open>books\<close>, one \<open>book\<close> with the
  attribute \<open>id="1"\<close>, its child \<open>title\<close> with the text \<open>Go\<close>.\<close>

definition booksDocument :: document where
  "booksDocument =
     Document (Some (Element ''books'' []
       [ElementNode (Element ''book'' [AttrNode ''id'' ''1'']
          [ElementNode (Element ''title'' [] [TextNode ''Go''])])]))"

text \<open>
  Modelled from the spec: \<^verbatim>\<open>EscapeString\<close> lives in a file of the package that is
  not part of the sources at hand.  The spec (section 6) says that text and attribute values
  are XML-escaped (\<open>&\<close>, \<open><\<close>, \<open>>\<close>, the two quotes) and that newline and tab are
  escaped unless \<^verbatim>\<open>preserve_whitespace\<close> is set; \<open>&amp;\<close>, \<open>&lt;\<close> and \<open>&gt;\<close> are
  the spellings the spec's claims name, and the numeric references of the quotes, the tab
  and the newline, which the spec leaves open, are those of Go's \<^verbatim>\<open>encoding/xml\<close>.
  The serializer above never refers to this definition: it only instantiates the
  parameter in closed examples.
\<close>

definition EscapeString :: "string \<Rightarrow> string" where
  \<open>EscapeString s =
     concat (map (\<lambda>c.
       if c = CHR ''&'' then ''&amp;''
       else if c = CHR ''<'' then ''&lt;''
       else if c = CHR ''>'' then ''&gt;''
       else if c = CHR 0x22 then ''&#34;''
       else if c = CHR 0x27 then ''&#39;''
       else if c = CHR 0x09 then ''&#x9;''
       else if c = CHR 0x0A then ''&#xA;''
       else [c]) s)\<close>

text \<open>A Text node that the indenting serializer skips: \<^verbatim>\<open>strings.TrimSpace\<close> of its
  data is empty.\<close>

definition isWhitespaceText :: "node \<Rightarrow> bool" where
  "isWhitespaceText node =
     (case node of TextNode textData \<Rightarrow> TrimSpace textData = [] | _ \<Rightarrow> False)"




text \<open>
  The invariant of the output buffer used in the proof: each \<open><\<close> of the string is
  followed, inside the string, by a byte that departs from the declaration.  It is kept by
  appending, and a string that has it does not contain the declaration.
\<close>

fun declarationClear :: "string \<Rightarrow> bool" where
  "declarationClear [] = True"
| "declarationClear (c # s) =
     ((c \<noteq> CHR ''<'' \<or>
        (\<not> HasPrefix (c # s) xmlDeclaration \<and> \<not> HasPrefix xmlDeclaration (c # s)))
      \<and> declarationClear s)"

section \<open>Basic facts about the serializer\<close>

lemma serializeChildNodes_Nil [simp]:
  "serializeChildNodes esc buf [] prefix indent depth pw = Inr buf"
  by (simp add: serializeChildNodes.simps)

lemma serializeChildNodes_Cons [simp]:
  "serializeChildNodes esc buf (child # siblings) prefix indent depth pw =
     (case serializeNodeWithOptions esc buf child prefix indent depth pw of
        Inl err \<Rightarrow> Inl err
      | Inr buf' \<Rightarrow> serializeChildNodes esc buf' siblings prefix indent depth pw)"
  by (subst serializeChildNodes.simps) simp

lemma writeAttribute_append:
  "writeAttribute esc pw (b @ buf) attr = b @ writeAttribute esc pw buf attr"
  by (cases attr) (simp_all add: writeAttribute_def Let_def)

lemma foldl_writeAttribute_append:
  "foldl (writeAttribute esc pw) (b @ buf) attrs = b @ foldl (writeAttribute esc pw) buf attrs"
  by (induction attrs arbitrary: buf) (simp_all add: writeAttribute_append)

lemma foldl_writeAttribute:
  "foldl (writeAttribute esc pw) buf attrs = buf @ attributesXML esc pw attrs"
  using foldl_writeAttribute_append [of esc pw buf "[]" attrs]
  by (simp add: attributesXML_def)

text \<open>The element serializer with its buffer writes collected: nothing but the children
  when the root is skipped, the paired tags of a childless element, and otherwise the open
  tag, the children and the close tag.\<close>

lemma serializeElementWithOptions_unfold:
  "serializeElementWithOptions esc buf elem skipRoot prefix indent depth pw =
     (if skipRoot then
        serializeChildNodes esc buf (ChildNodes elem) prefix indent (depth + 1) pw
      else if ChildNodes elem = [] then
        Inr (buf @ indentation indent depth @ ''<'' @ TagName elem
               @ attributesXML esc pw (Attributes elem)
               @ ''></'' @ TagName elem @ ''>'' @ lineEnd indent)
      else
        (case serializeChildNodes esc
                (buf @ indentation indent depth @ ''<'' @ TagName elem
                   @ attributesXML esc pw (Attributes elem) @ ''>'' @ lineEnd indent)
                (ChildNodes elem) prefix indent (depth + 1) pw of
           Inl err \<Rightarrow> Inl err
         | Inr buf' \<Rightarrow>
             Inr (buf' @ indentation indent depth @ ''</'' @ TagName elem @ ''>''
                    @ lineEnd indent)))"
  by (subst serializeElementWithOptions.simps)
     (simp add: Let_def foldl_writeAttribute indentation_def lineEnd_def split: sum.splits)

text \<open>Every serializer function succeeds, and what it appends does not depend on what the
  buffer already holds.\<close>

lemma serialize_appends:
  "\<exists>out. \<forall>b. serializeElementWithOptions esc (b @ buf) elem skipRoot prefix indent depth pw
            = Inr (b @ buf @ out)"
  "\<exists>out. \<forall>b. serializeNodeWithOptions esc (b @ buf) node prefix indent depth pw
            = Inr (b @ buf @ out)"
  "\<exists>out. \<forall>b. serializeChildNodes esc (b @ buf) children prefix indent depth pw
            = Inr (b @ buf @ out)"
proof (induction esc buf elem skipRoot prefix indent depth pw
    and esc buf node prefix indent depth pw
    and esc buf children prefix indent depth pw
    rule: serializeElementWithOptions_serializeNodeWithOptions_serializeChildNodes.induct)
  case (1 EscapeString buf elem skipRoot prefix indent depth preserveWhitespace)
  show ?case
  proof (cases "\<not> skipRoot \<and> ChildNodes elem = []")
    case True
    then show ?thesis
      by (simp add: serializeElementWithOptions_unfold)
  next
    case False
    define pre where "pre =
      (if skipRoot then []
       else indentation indent depth @ ''<'' @ TagName elem
              @ attributesXML EscapeString preserveWhitespace (Attributes elem)
              @ ''>'' @ lineEnd indent)"
    define post where "post =
      (if skipRoot then []
       else indentation indent depth @ ''</'' @ TagName elem @ ''>'' @ lineEnd indent)"
    have "\<exists>out. \<forall>b. serializeChildNodes EscapeString (b @ buf @ pre) (ChildNodes elem) prefix
              indent (depth + 1) preserveWhitespace = Inr (b @ (buf @ pre) @ out)"
      using 1 [OF refl refl _ refl] False
      by (auto simp: pre_def foldl_writeAttribute indentation_def lineEnd_def)
    then obtain out where out:
      "\<And>b. serializeChildNodes EscapeString (b @ buf @ pre) (ChildNodes elem) prefix
              indent (depth + 1) preserveWhitespace = Inr (b @ (buf @ pre) @ out)"
      by blast
    have "\<forall>b. serializeElementWithOptions EscapeString (b @ buf) elem skipRoot prefix indent
              depth preserveWhitespace = Inr (b @ buf @ (pre @ out @ post))"
      using False out
      by (auto simp: serializeElementWithOptions_unfold pre_def post_def)
    then show ?thesis by blast
  qed
next
  case (2 EscapeString buf node prefix indent depth preserveWhitespace)
  show ?case
  proof (cases node)
    case (ElementNode elem)
    with 2 show ?thesis
      by (simp add: serializeNodeWithOptions.simps)
  next
    case (TextNode textData)
    then show ?thesis
      by (cases "indent = []"; cases "TrimSpace textData = []")
         (simp_all add: serializeNodeWithOptions.simps)
  qed (simp_all add: serializeNodeWithOptions.simps)
next
  case (3 EscapeString buf children prefix indent depth preserveWhitespace)
  show ?case
  proof (cases children)
    case Nil
    then show ?thesis by simp
  next
    case (Cons child siblings)
    from 3(1) [OF Cons] obtain o1 where o1:
      "\<And>b. serializeNodeWithOptions EscapeString (b @ buf) child prefix indent depth
              preserveWhitespace = Inr (b @ buf @ o1)"
      by blast
    from o1 [of "[]"] have "serializeNodeWithOptions EscapeString buf child prefix indent depth
              preserveWhitespace = Inr (buf @ o1)"
      by simp
    from 3(2) [OF Cons this] obtain o2 where o2:
      "\<And>b. serializeChildNodes EscapeString (b @ buf @ o1) siblings prefix indent depth
              preserveWhitespace = Inr (b @ (buf @ o1) @ o2)"
      by blast
    have "\<forall>b. serializeChildNodes EscapeString (b @ buf) children prefix indent depth
              preserveWhitespace = Inr (b @ buf @ (o1 @ o2))"
      using o1 o2 by (simp add: Cons)
    then show ?thesis by blast
  qed
qed

lemma serializeElementWithOptions_succeeds:
  "\<exists>out. serializeElementWithOptions esc buf elem skipRoot prefix indent depth pw
           = Inr (buf @ out)"
  using serialize_appends(1) [of esc buf elem skipRoot prefix indent depth pw]
  by (metis append_Nil)

lemma serializeNodeWithOptions_succeeds:
  "\<exists>out. serializeNodeWithOptions esc buf node prefix indent depth pw = Inr (buf @ out)"
  using serialize_appends(2) [of esc buf node prefix indent depth pw]
  by (metis append_Nil)

lemma MarshalIndentWithOptions_succeeds:
  "\<exists>out. MarshalIndentWithOptions esc v prefix indent pw = Inr out"
proof (cases v)
  case (ElementNode elem)
  obtain out where "serializeElementWithOptions esc [] elem False prefix indent 0 pw = Inr out"
    using serializeElementWithOptions_succeeds [of esc "[]" elem False prefix indent 0 pw]
    by auto
  then show ?thesis
    by (simp add: ElementNode MarshalIndentWithOptions_def marshalElementWithOptions_def)
next
  case (DocumentNode doc)
  show ?thesis
  proof (cases "DocumentElement doc")
    case None
    then show ?thesis
      by (simp add: DocumentNode MarshalIndentWithOptions_def marshalDOMWithOptions_def)
  next
    case (Some root)
    obtain out where "serializeElementWithOptions esc
        (xmlDeclaration @ lineEnd indent) root False prefix indent 0 pw = Inr out"
      using serializeElementWithOptions_succeeds
        [of esc "xmlDeclaration @ lineEnd indent" root False prefix indent 0 pw]
      by auto
    then show ?thesis
      by (cases "indent = []")
         (simp_all add: DocumentNode Some MarshalIndentWithOptions_def
            marshalDOMWithOptions_def lineEnd_def)
  qed
next
  case (AttrNode name attrValue)
  then show ?thesis
    using serializeNodeWithOptions_succeeds [of esc "[]" v prefix indent 0 pw]
    by (auto simp: MarshalIndentWithOptions_def marshalNodeWithOptions_def)
next
  case (TextNode textData)
  then show ?thesis
    using serializeNodeWithOptions_succeeds [of esc "[]" v prefix indent 0 pw]
    by (auto simp: MarshalIndentWithOptions_def marshalNodeWithOptions_def)
next
  case (CDATASectionNode data)
  then show ?thesis
    using serializeNodeWithOptions_succeeds [of esc "[]" v prefix indent 0 pw]
    by (auto simp: MarshalIndentWithOptions_def marshalNodeWithOptions_def)
next
  case (CommentNode data)
  then show ?thesis
    using serializeNodeWithOptions_succeeds [of esc "[]" v prefix indent 0 pw]
    by (auto simp: MarshalIndentWithOptions_def marshalNodeWithOptions_def)
next
  case (ProcessingInstructionNode target data)
  then show ?thesis
    using serializeNodeWithOptions_succeeds [of esc "[]" v prefix indent 0 pw]
    by (auto simp: MarshalIndentWithOptions_def marshalNodeWithOptions_def)
next
  case (DocumentTypeNode name)
  then show ?thesis
    using serializeNodeWithOptions_succeeds [of esc "[]" v prefix indent 0 pw]
    by (auto simp: MarshalIndentWithOptions_def marshalNodeWithOptions_def)
next
  case (DocumentFragmentNode children)
  then show ?thesis
    using serializeNodeWithOptions_succeeds [of esc "[]" v prefix indent 0 pw]
    by (auto simp: MarshalIndentWithOptions_def marshalNodeWithOptions_def)
qed

text \<open>On a Document and on an Element, \<^verbatim>\<open>Marshal\<close> is \<^verbatim>\<open>MarshalIndentWithOptions\<close>
  with empty prefix and indent and \<^verbatim>\<open>preserveWhitespace = true\<close>; on any other node
  \<^verbatim>\<open>marshalNode\<close> replaces the flag by \<^verbatim>\<open>false\<close>.\<close>

lemma Marshal_eq:
  "Marshal esc v =
     MarshalIndentWithOptions esc v [] []
       (case v of DocumentNode doc \<Rightarrow> True | ElementNode elem \<Rightarrow> True | _ \<Rightarrow> False)"
  by (cases v)
     (simp_all add: Marshal_def MarshalIndentWithOptions_def marshalDOM_def marshalElement_def
        marshalNode_def)

lemma serializeNodeWithOptions_TextNode:
  "serializeNodeWithOptions esc buf (TextNode textData) prefix indent depth pw =
     (if indent \<noteq> [] \<and> TrimSpace textData = [] then Inr buf
      else Inr (buf @ indentation indent depth @ (if pw then textData else esc textData)
                  @ lineEnd indent))"
  by (simp add: serializeNodeWithOptions.simps indentation_def lineEnd_def)

text \<open>When indenting, the child loop writes the same bytes with and without the
  white-space-only Text children.\<close>

lemma serializeChildNodes_filter:
  "indent \<noteq> [] \<Longrightarrow>
   serializeChildNodes esc buf (filter (\<lambda>n. \<not> isWhitespaceText n) children) prefix indent depth pw
     = serializeChildNodes esc buf children prefix indent depth pw"
proof (induction children arbitrary: buf)
  case Nil
  show ?case by simp
next
  case (Cons child siblings)
  show ?case
  proof (cases "isWhitespaceText child")
    case True
    then obtain textData where "child = TextNode textData" "TrimSpace textData = []"
      by (cases child) (simp_all add: isWhitespaceText_def)
    then show ?thesis
      using Cons by (simp add: isWhitespaceText_def serializeNodeWithOptions_TextNode)
  next
    case False
    then show ?thesis
      using Cons by (simp split: sum.splits)
  qed
qed

text \<open>Strings of ASCII white space are trimmed to the empty string.\<close>

lemma trimLeftRunes_Nil [simp]: "trimLeftRunes runes [] = []"
proof -
  have "find (\<lambda>r. r \<noteq> [] \<and> HasPrefix [] r) runes = None"
    by (simp add: find_None_iff HasPrefix_def)
  then show ?thesis
    by (subst trimLeftRunes.simps) simp
qed

lemma find_single_byte_rune:
  "c \<in> set cs \<Longrightarrow>
   find (\<lambda>r. r \<noteq> [] \<and> HasPrefix (c # s) r) (map (\<lambda>c. [c]) cs @ rest) = Some [c]"
  by (induction cs) (auto simp: HasPrefix_def)

lemma trimLeftRunes_asciiSpace:
  "list_all (\<lambda>c. c \<in> set asciiSpace) s \<Longrightarrow> trimLeftRunes spaceRunes s = []"
proof (induction s)
  case Nil
  show ?case by simp
next
  case (Cons c s)
  then have c: "c \<in> set asciiSpace" and s: "trimLeftRunes spaceRunes s = []"
    by simp_all
  from c have "find (\<lambda>r. r \<noteq> [] \<and> HasPrefix (c # s) r) spaceRunes = Some [c]"
    unfolding spaceRunes_def by (rule find_single_byte_rune)
  then show ?case
    using s by (subst trimLeftRunes.simps) simp
qed

lemma TrimSpace_asciiSpace:
  "list_all (\<lambda>c. c \<in> set asciiSpace) s \<Longrightarrow> TrimSpace s = []"
  by (simp add: TrimSpace_def trimLeftRunes_asciiSpace)



text \<open>The definitions that evaluate the serializer on a closed tree.\<close>

lemmas eval_simps =
  Marshal_def marshalDOM_def marshalDOMWithOptions_def marshalElement_def
  marshalElementWithOptions_def marshalNode_def marshalNodeWithOptions_def
  MarshalIndent_def MarshalIndentWithOptions_def
  xmlDeclaration_def serializeElementWithOptions.simps serializeNodeWithOptions.simps
  writeAttribute_def quote_def apostrophe_def newline_def HasPrefix_def Repeat_def





lemma declarationClear_no_lt: "CHR ''<'' \<notin> set s \<Longrightarrow> declarationClear s"
  by (induction s) auto

























section \<open>The claims\<close>

text \<open>
  Claim C3.  For the document built as root \<open>books\<close>, one child \<open>book\<close> with the single
  attribute \<open>id\<close> of value \<open>1\<close>, whose only child \<open>title\<close> holds the single Text node
  \<open>Go\<close>, \<^verbatim>\<open>Marshal\<close> returns a nil error and exactly the bytes
  \<^verbatim>\<open><?xml version="1.0"?><books><book id="1"><title>Go</title></book></books>\<close>,
  whatever \<^verbatim>\<open>EscapeString\<close> does.
\<close>

theorem Marshal_booksDocument:
  \<open>Marshal esc (DocumentNode booksDocument) =
     Inr ''<?xml version="1.0"?><books><book id="1"><title>Go</title></book></books>''\<close>
  by (simp add: Marshal_def marshalDOM_def marshalDOMWithOptions_def booksDocument_def
      xmlDeclaration_def serializeElementWithOptions.simps serializeNodeWithOptions.simps
      writeAttribute_def quote_def HasPrefix_def)

text \<open>
  Claim C9.  On every DOM value (Document, Element or any other node) \<^verbatim>\<open>Marshal\<close>,
  \<^verbatim>\<open>MarshalIndent\<close> and \<^verbatim>\<open>MarshalIndentWithOptions\<close> return a nil error together
  with some bytes: no path of the serializer over a DOM tree yields a non-nil error.
\<close>

theorem Marshal_never_fails:
  "(\<exists>out. Marshal esc v = Inr out)
   \<and> (\<exists>out. MarshalIndent esc v prefix indent pw = Inr out)
   \<and> (\<exists>out. MarshalIndentWithOptions esc v prefix indent pw = Inr out)"
  by (simp add: Marshal_eq MarshalIndent_def MarshalIndentWithOptions_succeeds)

text \<open>
  Claim C10.  Marshaling a Document whose \<^verbatim>\<open>DocumentElement\<close> is nil succeeds and
  returns exactly the XML declaration, followed by one newline when the indent string is
  not empty and by nothing otherwise.
\<close>

theorem Marshal_empty_document:
  \<open>Marshal esc (DocumentNode (Document None)) = Inr ''<?xml version="1.0"?>''
   \<and> MarshalIndent esc (DocumentNode (Document None)) prefix indent pw
       = Inr (''<?xml version="1.0"?>'' @ (if indent = [] then [] else newline))
   \<and> MarshalIndentWithOptions esc (DocumentNode (Document None)) prefix indent pw
       = Inr (''<?xml version="1.0"?>'' @ (if indent = [] then [] else newline))\<close>
  by (simp add: Marshal_def marshalDOM_def MarshalIndent_def MarshalIndentWithOptions_def
      marshalDOMWithOptions_def xmlDeclaration_def)

text \<open>
  Claim C5.  An Element without child nodes is written as its open tag (name and
  attributes) immediately followed by the matching close tag, \<^verbatim>\<open><name></name>\<close> when it
  has no attributes, and never in the self-closing form \<^verbatim>\<open><name/>\<close>.
\<close>

theorem childless_element_paired_tags:
  "serializeElementWithOptions esc buf (Element name attrs []) False prefix indent depth pw
     = Inr (buf @ indentation indent depth
              @ ''<'' @ name @ attributesXML esc pw attrs @ ''></'' @ name @ ''>''
              @ lineEnd indent)
   \<and> serializeElementWithOptions esc buf (Element name attrs []) False prefix indent depth pw
     \<noteq> Inr (buf @ indentation indent depth
              @ ''<'' @ name @ attributesXML esc pw attrs @ ''/>''
              @ lineEnd indent)
   \<and> Marshal esc (ElementNode (Element name [] [])) = Inr (''<'' @ name @ ''></'' @ name @ ''>'')"
  by (simp add: serializeElementWithOptions_unfold Marshal_def marshalElement_def
      marshalElementWithOptions_def indentation_def lineEnd_def attributesXML_def)

text \<open>
  Claim C8.  With a non-empty indent string every Text child whose data is white space
  only (in particular: made of ASCII white space only) is left out of the output: the
  child loop writes what it writes without these children.  With an empty indent string
  a Text child is always written, as its data when \<^verbatim>\<open>preserveWhitespace\<close> is set and
  as its escaped data otherwise.
\<close>

theorem whitespace_text_elided:
  "(indent \<noteq> [] \<longrightarrow>
      serializeChildNodes esc buf children prefix indent depth pw
        = serializeChildNodes esc buf (filter (\<lambda>n. \<not> isWhitespaceText n) children)
            prefix indent depth pw)
   \<and> (list_all (\<lambda>c. c \<in> set asciiSpace) textData \<longrightarrow> isWhitespaceText (TextNode textData))
   \<and> serializeChildNodes esc buf (TextNode textData # siblings) prefix [] depth pw
        = serializeChildNodes esc (buf @ (if pw then textData else esc textData)) siblings
            prefix [] depth pw"
proof (intro conjI impI)
  assume "indent \<noteq> []"
  then show "serializeChildNodes esc buf children prefix indent depth pw
        = serializeChildNodes esc buf (filter (\<lambda>n. \<not> isWhitespaceText n) children)
            prefix indent depth pw"
    by (simp add: serializeChildNodes_filter)
next
  assume "list_all (\<lambda>c. c \<in> set asciiSpace) textData"
  then show "isWhitespaceText (TextNode textData)"
    by (simp add: isWhitespaceText_def TrimSpace_asciiSpace)
next
  show "serializeChildNodes esc buf (TextNode textData # siblings) prefix [] depth pw
        = serializeChildNodes esc (buf @ (if pw then textData else esc textData)) siblings
            prefix [] depth pw"
    by (simp add: serializeNodeWithOptions_TextNode indentation_def lineEnd_def)
qed

theorem whitespace_text_elided_witness:
  "serializeChildNodes EscapeString [] [TextNode [CHR 0x20, CHR 0x0A], CommentNode ''c'']
       [] ''  '' 1 False
     = Inr (''  <!--c-->'' @ newline)
   \<and> isWhitespaceText (TextNode [CHR 0x20, CHR 0x0A])
   \<and> serializeChildNodes EscapeString [] [TextNode [CHR 0x20, CHR 0x0A]] [] [] 1 False
       = Inr ('' &#xA;'')"
  using whitespace_text_elided [where indent = "''  ''" and esc = EscapeString and buf = "[]"
      and children = "[TextNode [CHR 0x20, CHR 0x0A], CommentNode ''c'']" and prefix = "[]"
      and depth = 1 and pw = False and textData = "[CHR 0x20, CHR 0x0A]" and siblings = "[]"]
  by (simp add: asciiSpace_def serializeNodeWithOptions.simps EscapeString_def Repeat_def
      isWhitespaceText_def)




text \<open>
  Claim C1 asks that the data of every Text descendant of a Document appear XML-escaped
  in the output of \<^verbatim>\<open>Marshal\<close>.  \<^verbatim>\<open>Marshal\<close> passes
  \<^verbatim>\<open>preserveWhitespace = true\<close>, and under that flag the Text branch writes the data
  unchanged: for the document \<open><a>\<close> holding the text \<open>x&y<z>\<close> the output carries the
  ampersand and the angle brackets as they are, whatever \<^verbatim>\<open>EscapeString\<close> does.
\<close>

theorem Marshal_document_text_unescaped:
  \<open>Marshal esc (DocumentNode (Document (Some (Element ''a'' [] [TextNode ''x&y<z>''])))) =
     Inr ''<?xml version="1.0"?><a>x&y<z></a>''\<close>
  by (simp add: eval_simps)

text \<open>
  Claim C2 asks that in the single-quote branch (a value containing a double quote) every
  single quote of the value be escaped.  Under \<^verbatim>\<open>preserveWhitespace\<close>, which
  \<^verbatim>\<open>Marshal\<close> always sets for an Element, the value is written unchanged between the
  single quotes: for the value made of a double quote followed by a single quote the
  output is \<^verbatim>\<open><a v='"''></a>\<close>.
\<close>

theorem single_quoted_attribute_unescaped:
  \<open>Marshal esc (ElementNode (Element ''a'' [AttrNode ''v'' [CHR 0x22, CHR 0x27]] [])) =
     Inr (''<a v='' @ [CHR 0x27, CHR 0x22, CHR 0x27, CHR 0x27] @ ''></a>'')\<close>
  by (simp add: eval_simps)

text \<open>
  Claim C6 asks that \<^verbatim>\<open>preserveWhitespace\<close> disable the escaping of newline and tab
  only.  The flag disables \<^verbatim>\<open>EscapeString\<close> altogether, in attribute values and in
  Text data: \<open><\<close> and \<open>&\<close> are written as they are.
\<close>

theorem preserveWhitespace_disables_all_escaping:
  \<open>MarshalIndentWithOptions esc
       (ElementNode (Element ''a'' [AttrNode ''k'' ''1<2''] [TextNode ''x&y'']))
       [] [] True =
     Inr ''<a k="1<2">x&y</a>''\<close>
  by (simp add: eval_simps)

text \<open>
  Claim C7 asks that in the indented form every open tag be preceded by the prefix string
  and depth copies of indent, so that a non-empty prefix shows in the output.  The
  serializer hands \<^verbatim>\<open>prefix\<close> down to every call and never writes it: with prefix
  \<open>#\<close> and a two-space indent the output has no \<open>#\<close>, and with prefix \<open>#\<close> and an
  empty indent there is neither prefix nor newline.
\<close>

theorem prefix_not_written:
  \<open>MarshalIndent esc
       (ElementNode (Element ''a'' [] [ElementNode (Element ''b'' [] [])]))
       ''#'' ''  '' pw =
     Inr (''<a>'' @ newline @ ''  <b></b>'' @ newline @ ''</a>'' @ newline)
   \<and> \<not> Contains (''<a>'' @ newline @ ''  <b></b>'' @ newline @ ''</a>'' @ newline) ''#''
   \<and> MarshalIndent esc (ElementNode (Element ''a'' [] [])) ''#'' [] pw = Inr ''<a></a>''\<close>
  by (simp add: eval_simps)

end
